theory Spec2Isabelle
  imports Complex_Main "HOL-Library.Word" "HOL-Library.List_Lexorder" "HOL-Library.Char_ord"
    "HOL-Library.Multiset" "HOL-Library.AList"
begin

unbundle bit_operations_syntax

section \<open>The weather monitor: caches, freshness and snapshots\<close>

text \<open>
  A shallow embedding of \<^verbatim>\<open>weather_monitor.py\<close> and of the historical-record script
  \<^verbatim>\<open>test_historical.py\<close>. Python values that are read from or written to JSON files are
  values of the datatype \<open>json\<close>; every Python exception is a value of \<open>exn\<close> and a
  function that can raise returns \<open>exn + 'a\<close>; the files, and the order of the external
  effects (clock reads, requests, writes), are fields of an explicit \<open>world\<close>.
\<close>

subsection \<open>SHA-256 (\<^verbatim>\<open>hashlib.sha256(...).hexdigest()\<close>)\<close>

text \<open>
  The digest of FIPS 180-4 on a byte string, rendered as 64 lower-case hexadecimal digits.
  A \<open>string\<close> is the UTF-8 encoding of the Python \<^verbatim>\<open>str\<close>, so \<^verbatim>\<open>.encode()\<close> is the
  identity.
\<close>

type_synonym u32 = "32 word"

definition rotr :: "nat \<Rightarrow> u32 \<Rightarrow> u32" where
  "rotr n x = (drop_bit n x) OR (push_bit (32 - n) x)"

definition Ch :: "u32 \<Rightarrow> u32 \<Rightarrow> u32 \<Rightarrow> u32" where
  "Ch x y z = (x AND y) XOR (NOT x AND z)"

definition Maj :: "u32 \<Rightarrow> u32 \<Rightarrow> u32 \<Rightarrow> u32" where
  "Maj x y z = (x AND y) XOR (x AND z) XOR (y AND z)"

definition bsig0 :: "u32 \<Rightarrow> u32" where
  "bsig0 x = rotr 2 x XOR rotr 13 x XOR rotr 22 x"

definition bsig1 :: "u32 \<Rightarrow> u32" where
  "bsig1 x = rotr 6 x XOR rotr 11 x XOR rotr 25 x"

definition ssig0 :: "u32 \<Rightarrow> u32" where
  "ssig0 x = rotr 7 x XOR rotr 18 x XOR drop_bit 3 x"

definition ssig1 :: "u32 \<Rightarrow> u32" where
  "ssig1 x = rotr 17 x XOR rotr 19 x XOR drop_bit 10 x"

text \<open>
  The constants of the standard: the first 32 bits of the fractional parts of the cube
  roots (round constants) and of the square roots (initial state) of the first primes.
  \<open>iroot k b n r\<close> finds, bit by bit from bit \<open>b - 1\<close> down, the largest \<open>r\<close> with
  \<open>r ^ k \<le> n\<close>.
\<close>

fun iroot :: "nat \<Rightarrow> nat \<Rightarrow> int \<Rightarrow> int \<Rightarrow> int" where
  "iroot k 0 n r = r"
| "iroot k (Suc b) n r = iroot k b n (if (r + 2 ^ b) ^ k \<le> n then r + 2 ^ b else r)"

definition primes64 :: "int list" where
  "primes64 =
   [2, 3, 5, 7, 11, 13, 17, 19, 23, 29, 31, 37, 41, 43, 47, 53, 59, 61, 67, 71, 73, 79, 83,
    89, 97, 101, 103, 107, 109, 113, 127, 131, 137, 139, 149, 151, 157, 163, 167, 173, 179,
    181, 191, 193, 197, 199, 211, 223, 227, 229, 233, 239, 241, 251, 257, 263, 269, 271, 277,
    281, 283, 293, 307, 311]"

definition sha256_K :: "u32 list" where
  "sha256_K = map (\<lambda>p. of_int (iroot 3 36 (p * 2 ^ 96) 0)) primes64"

type_synonym sha_state = "u32 \<times> u32 \<times> u32 \<times> u32 \<times> u32 \<times> u32 \<times> u32 \<times> u32"

definition sha256_H0 :: sha_state where
  "sha256_H0 =
     (case map (\<lambda>p. of_int (iroot 2 40 (p * 2 ^ 64) 0)) (take 8 primes64) of
        [a, b, c, d, e, f, g, h] \<Rightarrow> (a, b, c, d, e, f, g, h))"

fun be_bytes :: "nat \<Rightarrow> nat \<Rightarrow> nat list" where
  "be_bytes 0 v = []"
| "be_bytes (Suc n) v = be_bytes n (v div 256) @ [v mod 256]"

definition sha256_pad :: "nat list \<Rightarrow> nat list" where
  "sha256_pad bs =
     (let l = length bs; z = (55 + 64 - l mod 64) mod 64
      in bs @ [128] @ replicate z 0 @ be_bytes 8 (8 * l))"

fun be_words :: "nat list \<Rightarrow> u32 list" where
  "be_words (a # b # c # d # rest) =
     (push_bit 24 (of_nat a) OR push_bit 16 (of_nat b) OR push_bit 8 (of_nat c) OR of_nat d)
       # be_words rest"
| "be_words _ = []"

fun schedule :: "nat \<Rightarrow> u32 list \<Rightarrow> u32 list" where
  "schedule 0 ws = ws"
| "schedule (Suc n) ws =
     (let t = length ws
      in schedule n (ws @ [ssig1 (ws ! (t - 2)) + ws ! (t - 7) + ssig0 (ws ! (t - 15)) + ws ! (t - 16)]))"

definition sha_round :: "sha_state \<Rightarrow> u32 \<times> u32 \<Rightarrow> sha_state" where
  "sha_round st kw =
     (case st of (a, b, c, d, e, f, g, h) \<Rightarrow>
        let t1 = h + bsig1 e + Ch e f g + fst kw + snd kw;
            t2 = bsig0 a + Maj a b c
        in (t1 + t2, a, b, c, d + t1, e, f, g))"

definition add_state :: "sha_state \<Rightarrow> sha_state \<Rightarrow> sha_state" where
  "add_state s t =
     (case s of (a, b, c, d, e, f, g, h) \<Rightarrow>
      case t of (a', b', c', d', e', f', g', h') \<Rightarrow>
        (a + a', b + b', c + c', d + d', e + e', f + f', g + g', h + h'))"

definition compress :: "sha_state \<Rightarrow> u32 list \<Rightarrow> sha_state" where
  "compress st block = add_state st (foldl sha_round st (zip sha256_K (schedule 48 block)))"

fun blocks :: "nat \<Rightarrow> u32 list \<Rightarrow> u32 list list" where
  "blocks 0 ws = []"
| "blocks (Suc n) ws = take 16 ws # blocks n (drop 16 ws)"

definition hex_digit :: "nat \<Rightarrow> char" where
  "hex_digit n = (''0123456789abcdef'') ! n"

definition hex_word :: "u32 \<Rightarrow> string" where
  "hex_word w = map (\<lambda>i. hex_digit (unat (drop_bit (4 * i) w AND 15))) [7, 6, 5, 4, 3, 2, 1, 0]"

definition sha256_hexdigest :: "string \<Rightarrow> string" where
  "sha256_hexdigest s =
     (let ws = be_words (sha256_pad (map of_char s))
      in case foldl compress sha256_H0 (blocks (length ws div 16) ws) of
           (a, b, c, d, e, f, g, h) \<Rightarrow> concat (map hex_word [a, b, c, d, e, f, g, h]))"

subsection \<open>Fingerprint of the configured locations\<close>

text \<open>\<^verbatim>\<open>"|".join(xs)\<close>\<close>

fun join :: "string \<Rightarrow> string list \<Rightarrow> string" where
  "join sep [] = []"
| "join sep [x] = x"
| "join sep (x # y # ys) = x @ sep @ join sep (y # ys)"

text \<open>
  \<^verbatim>\<open>hash_locations\<close> (lines 66-68). Python orders strings by code point, which is the
  byte-wise lexicographic order of their UTF-8 encodings: \<open>sort\<close> on \<open>string\<close>.
  The function takes no world and returns none: it has no effect.
\<close>

definition hash_locations :: "string list \<Rightarrow> string" where
  "hash_locations locations = sha256_hexdigest (join ''|'' (sort locations))"

subsection \<open>Python values and exceptions\<close>

text \<open>
  Everything the program loads from a file or receives from a provider is a parsed JSON
  document; Python's \<^verbatim>\<open>None\<close> is \<open>JNull\<close>. A \<^verbatim>\<open>dict\<close> is an association list in
  insertion order whose keys are distinct, as \<^verbatim>\<open>json.load\<close> produces it; looking a key up
  is \<open>map_of\<close> and storing one is \<open>AList.update\<close> (in place when the key exists, at the end
  otherwise). Numbers are exact rationals: Python's \<^verbatim>\<open>int\<close> and \<^verbatim>\<open>float\<close> are one
  constructor, and the rounding error of binary floating point and the values
  \<^verbatim>\<open>NaN\<close> and \<^verbatim>\<open>Infinity\<close> are outside the model.
\<close>

datatype json =
    JNull
  | JBool bool
  | JNum rat
  | JStr string
  | JArr "json list"
  | JObj "(string \<times> json) list"

datatype exn = AttributeError | TypeError | KeyError | IndexError | RequestException

definition and_then :: "exn + 'a \<Rightarrow> ('a \<Rightarrow> exn + 'b) \<Rightarrow> exn + 'b" where
  "and_then r f = (case r of Inl e \<Rightarrow> Inl e | Inr v \<Rightarrow> f v)"

text \<open>Truth value of a Python object (\<^verbatim>\<open>if x:\<close>, \<^verbatim>\<open>not x\<close>).\<close>

fun truthy :: "json \<Rightarrow> bool" where
  "truthy JNull = False"
| "truthy (JBool b) = b"
| "truthy (JNum x) = (x \<noteq> 0)"
| "truthy (JStr s) = (s \<noteq> [])"
| "truthy (JArr xs) = (xs \<noteq> [])"
| "truthy (JObj kvs) = (kvs \<noteq> [])"

text \<open>\<^verbatim>\<open>d.get(k, default)\<close>: only a \<^verbatim>\<open>dict\<close> has the method.\<close>

definition dict_get :: "json \<Rightarrow> string \<Rightarrow> json \<Rightarrow> exn + json" where
  "dict_get d k dflt =
     (case d of
        JObj kvs \<Rightarrow> Inr (case map_of kvs k of None \<Rightarrow> dflt | Some v \<Rightarrow> v)
      | _ \<Rightarrow> Inl AttributeError)"

text \<open>\<^verbatim>\<open>d[k]\<close> with a string key \<open>k\<close>.\<close>

definition subscript :: "json \<Rightarrow> string \<Rightarrow> exn + json" where
  "subscript d k =
     (case d of
        JObj kvs \<Rightarrow> (case map_of kvs k of None \<Rightarrow> Inl KeyError | Some v \<Rightarrow> Inr v)
      | _ \<Rightarrow> Inl TypeError)"

text \<open>
  \<^verbatim>\<open>x[0]\<close>. The keys of a loaded JSON object are strings, so \<open>0\<close> is never one of them.
  The first character of a string is approximated by its first byte; it is a string
  either way.
\<close>

definition index0 :: "json \<Rightarrow> exn + json" where
  "index0 x =
     (case x of
        JArr [] \<Rightarrow> Inl IndexError
      | JArr (v # _) \<Rightarrow> Inr v
      | JStr [] \<Rightarrow> Inl IndexError
      | JStr (c # _) \<Rightarrow> Inr (JStr [c])
      | JObj _ \<Rightarrow> Inl KeyError
      | _ \<Rightarrow> Inl TypeError)"

text \<open>\<^verbatim>\<open>d[k] = v\<close>.\<close>

definition setitem :: "json \<Rightarrow> string \<Rightarrow> json \<Rightarrow> exn + json" where
  "setitem d k v =
     (case d of
        JObj kvs \<Rightarrow> Inr (JObj (AList.update k v kvs))
      | _ \<Rightarrow> Inl TypeError)"

text \<open>
  \<^verbatim>\<open>k in x\<close> for a string \<open>k\<close>: a key of a \<^verbatim>\<open>dict\<close>, an element of a \<^verbatim>\<open>list\<close>, a
  substring of a \<^verbatim>\<open>str\<close>; anything else is not iterable.
\<close>

fun substring :: "string \<Rightarrow> string \<Rightarrow> bool" where
  "substring k [] = (k = [])"
| "substring k (c # s) = (take (length k) (c # s) = k \<or> substring k s)"

definition contains :: "string \<Rightarrow> json \<Rightarrow> exn + bool" where
  "contains k x =
     (case x of
        JObj kvs \<Rightarrow> Inr (k \<in> set (map fst kvs))
      | JArr xs \<Rightarrow> Inr (JStr k \<in> set xs)
      | JStr s \<Rightarrow> Inr (substring k s)
      | _ \<Rightarrow> Inl TypeError)"

text \<open>The numeric value of an \<^verbatim>\<open>int\<close>, \<^verbatim>\<open>float\<close> or \<^verbatim>\<open>bool\<close>; other objects have none.\<close>

fun number :: "json \<Rightarrow> rat option" where
  "number (JNum x) = Some x"
| "number (JBool b) = Some (if b then 1 else 0)"
| "number _ = None"

text \<open>\<^verbatim>\<open>round(x)\<close> with one argument: to the nearest integer, a tie to the even one.\<close>

definition py_round :: "rat \<Rightarrow> int" where
  "py_round x =
     (let f = \<lfloor>x\<rfloor>; d = x - of_int f
      in if d < 1 / 2 then f else if 1 / 2 < d then f + 1 else if even f then f else f + 1)"

subsection \<open>Configuration, environment and world\<close>

abbreviation LOCATION_CACHE_FILE :: string where
  "LOCATION_CACHE_FILE \<equiv> ''location_cache.json''"

abbreviation FORECAST_CACHE_FILE :: string where
  "FORECAST_CACHE_FILE \<equiv> ''forecast_cache.json''"

abbreviation WEATHER_DATA_FILE :: string where
  "WEATHER_DATA_FILE \<equiv> ''weather_data.json''"

abbreviation HISTORICAL_DATA_FILE :: string where
  "HISTORICAL_DATA_FILE \<equiv> ''historical_data.json''"

abbreviation FORECAST_REFRESH_INTERVAL :: rat where
  "FORECAST_REFRESH_INTERVAL \<equiv> 7200"

text \<open>The list \<^verbatim>\<open>LOCATIONS\<close> of the source (lines 18-46).\<close>

definition source_LOCATIONS :: "string list" where
  "source_LOCATIONS =
   [''Umuahia, Abia, Nigeria'', ''Uyo, Akwa Ibom, Nigeria'', ''Yola, Adamawa, Nigeria'',
    ''Awka, Anambra, Nigeria'', ''Yenagoa, Bayelsa, Nigeria'', ''Makurdi, Benue, Nigeria'',
    ''Calabar, Cross River, Nigeria'', ''Asaba, Delta, Nigeria'', ''Benin City, Edo, Nigeria'',
    ''Ado Ekiti, Ekiti, Nigeria'', ''Enugu, Enugu, Nigeria'', ''Dutse, Jigawa, Nigeria'',
    ''Kaduna, Kaduna, Nigeria'', ''Kano, Kano, Nigeria'', ''Birnin Kebbi, Kebbi, Nigeria'',
    ''Lokoja, Kogi, Nigeria'', ''Ilorin, Kwara, Nigeria'', ''Ikeja, Lagos, Nigeria'',
    ''Owerri, Imo, Nigeria'', ''Abeokuta, Ogun, Nigeria'', ''Sagamu, Ogun State, Nigeria'',
    ''Akure, Ondo, Nigeria'', ''Osogbo, Osun, Nigeria'', ''Jos, Plateau, Nigeria'',
    ''Port Harcourt, Rivers, Nigeria'', ''Ibadan, Oyo, Nigeria'', ''Jalingo, Taraba, Nigeria'']"

text \<open>
  A file is absent, holds text that \<^verbatim>\<open>json.load\<close> rejects with \<^verbatim>\<open>JSONDecodeError\<close>, or
  holds the text of a JSON document.
\<close>

datatype disk_file = Absent | Corrupt | Holds json

text \<open>
  The external effects of a run, in the order in which they happen. The number of events
  so far is the logical time of the run: what the clock shows and what a provider answers
  may depend on it.
\<close>

datatype event =
    TimeTime
  | DatetimeNow
  | RebuildStarted
  | Geocode string
  | Sleep
  | WeatherRequest json json
  | ForecastRequest json json
  | FileWrite string

record world =
  files :: "string \<Rightarrow> disk_file"
  trace :: "event list"

datatype http = HttpError | HttpOk json

datatype geo = GeoFound rat rat | GeoNone | GeoError

text \<open>
  What a run reads and does not change: the two module-level settings \<^verbatim>\<open>API_KEY\<close> and
  \<^verbatim>\<open>LOCATIONS\<close>, the clock (\<^verbatim>\<open>time.time()\<close> and
  \<^verbatim>\<open>datetime.now(timezone.utc).isoformat()\<close> at a logical time), and the answers of the
  geocoder and of the two OpenWeatherMap endpoints. \<open>HttpError\<close> stands for every
  \<^verbatim>\<open>RequestException\<close> (connection, timeout, status, undecodable body), \<open>GeoError\<close> for every
  exception of the geocoder.
\<close>

record env =
  API_KEY :: "string option"
  LOCATIONS :: "string list"
  time_time :: "nat \<Rightarrow> rat"
  utc_isoformat :: "nat \<Rightarrow> string"
  geocode :: "nat \<Rightarrow> string \<Rightarrow> geo"
  weather_api :: "nat \<Rightarrow> json \<Rightarrow> json \<Rightarrow> http"
  forecast_api :: "nat \<Rightarrow> json \<Rightarrow> json \<Rightarrow> http"

text \<open>\<^verbatim>\<open>API_KEY\<close> is truthy: the variable is set and not empty.\<close>

definition key_set :: "env \<Rightarrow> bool" where
  "key_set env = (case API_KEY env of None \<Rightarrow> False | Some k \<Rightarrow> k \<noteq> [])"

definition emit :: "event \<Rightarrow> world \<Rightarrow> world" where
  "emit e w = w\<lparr>trace := trace w @ [e]\<rparr>"

subsection \<open>Durable JSON store\<close>

text \<open>
  \<^verbatim>\<open>load_json\<close> (lines 70-78): whatever document the file holds, of any shape; the empty
  \<^verbatim>\<open>dict\<close> when the file is absent or does not parse.
\<close>

definition load_json :: "string \<Rightarrow> world \<Rightarrow> json" where
  "load_json path w =
     (case files w path of
        Holds v \<Rightarrow> v
      | Corrupt \<Rightarrow> JObj []
      | Absent \<Rightarrow> JObj [])"

text \<open>
  \<^verbatim>\<open>save_json\<close> (lines 80-86, and lines 28-35 of the script). The disk accepts every
  write: the failure that the function catches and logs is not modelled.
\<close>

definition save_json :: "string \<Rightarrow> json \<Rightarrow> world \<Rightarrow> world" where
  "save_json path data w =
     w\<lparr>files := (files w)(path := Holds data), trace := trace w @ [FileWrite path]\<rparr>"

subsection \<open>Location cache\<close>

definition coords :: "rat \<Rightarrow> rat \<Rightarrow> json" where
  "coords lat lon = JObj [(''lat'', JNum lat), (''lon'', JNum lon)]"

text \<open>
  The loop of \<^verbatim>\<open>build_location_cache\<close> (lines 97-109): a place that is not found or
  whose lookup raises is left out; the pause of one second is skipped when the lookup
  raises.
\<close>

fun geocode_all ::
  "env \<Rightarrow> string list \<Rightarrow> (string \<times> json) list \<Rightarrow> world \<Rightarrow> (string \<times> json) list \<times> world" where
  "geocode_all env [] locs w = (locs, w)"
| "geocode_all env (place # rest) locs w =
     (case geocode env (length (trace w)) place of
        GeoFound lat lon \<Rightarrow>
          geocode_all env rest (AList.update place (coords lat lon) locs)
            (emit Sleep (emit (Geocode place) w))
      | GeoNone \<Rightarrow> geocode_all env rest locs (emit Sleep (emit (Geocode place) w))
      | GeoError \<Rightarrow> geocode_all env rest locs (emit (Geocode place) w))"

text \<open>\<^verbatim>\<open>build_location_cache\<close> (lines 91-113).\<close>

definition build_location_cache :: "env \<Rightarrow> world \<Rightarrow> json \<times> world" where
  "build_location_cache env w =
     (case geocode_all env (LOCATIONS env) [] (emit RebuildStarted w) of
        (locs, w') \<Rightarrow>
          let cache = JObj [(''version'', JStr (hash_locations (LOCATIONS env))),
                            (''locations'', JObj locs)]
          in (cache, save_json LOCATION_CACHE_FILE cache w'))"

text \<open>Line 120: \<^verbatim>\<open>not cache or cache.get("version") != current_hash\<close>.\<close>

definition version_differs :: "json \<Rightarrow> string \<Rightarrow> exn + bool" where
  "version_differs cache current_hash =
     (if \<not> truthy cache then Inr True
      else and_then (dict_get cache ''version'' JNull) (\<lambda>v. Inr (v \<noteq> JStr current_hash)))"

text \<open>
  Line 125: \<^verbatim>\<open>all(loc in cache.get("locations", {}) for loc in LOCATIONS)\<close>, which stops at
  the first name that is missing.
\<close>

fun all_present :: "string list \<Rightarrow> json \<Rightarrow> exn + bool" where
  "all_present [] cache = Inr True"
| "all_present (loc # rest) cache =
     and_then (dict_get cache ''locations'' (JObj [])) (\<lambda>entries.
     and_then (contains loc entries) (\<lambda>present.
       if present then all_present rest cache else Inr False))"

text \<open>\<^verbatim>\<open>get_location_cache\<close> (lines 115-130).\<close>

definition get_location_cache :: "env \<Rightarrow> world \<Rightarrow> (exn + json) \<times> world" where
  "get_location_cache env w =
     (let cache = load_json LOCATION_CACHE_FILE w;
          current_hash = hash_locations (LOCATIONS env)
      in case version_differs cache current_hash of
           Inl e \<Rightarrow> (Inl e, w)
         | Inr outdated \<Rightarrow>
             if outdated then (case build_location_cache env w of (c, w') \<Rightarrow> (Inr c, w'))
             else (case all_present (LOCATIONS env) cache of
                     Inl e \<Rightarrow> (Inl e, w)
                   | Inr intact \<Rightarrow>
                       if \<not> intact
                       then (case build_location_cache env w of (c, w') \<Rightarrow> (Inr c, w'))
                       else (Inr cache, w)))"

subsection \<open>Current weather\<close>

text \<open>
  \<^verbatim>\<open>str.capitalize()\<close> on ASCII letters; bytes outside ASCII are left as they are (Python
  would also change the case of letters outside ASCII).
\<close>

definition upper_ascii :: "char \<Rightarrow> char" where
  "upper_ascii c =
     (if CHR ''a'' \<le> c \<and> c \<le> CHR ''z'' then char_of (of_char c - (32::nat)) else c)"

definition lower_ascii :: "char \<Rightarrow> char" where
  "lower_ascii c =
     (if CHR ''A'' \<le> c \<and> c \<le> CHR ''Z'' then char_of (of_char c + (32::nat)) else c)"

definition capitalize :: "json \<Rightarrow> exn + json" where
  "capitalize x =
     (case x of
        JStr [] \<Rightarrow> Inr (JStr [])
      | JStr (c # cs) \<Rightarrow> Inr (JStr (upper_ascii c # map lower_ascii cs))
      | _ \<Rightarrow> Inl AttributeError)"

text \<open>Lines 148-161: the fields taken from the body of the response.\<close>

definition weather_fields :: "json \<Rightarrow> exn + json" where
  "weather_fields data =
     and_then (subscript data ''main'') (\<lambda>main.
     and_then (subscript data ''weather'') (\<lambda>weather.
     and_then (index0 weather) (\<lambda>first.
     and_then (subscript first ''description'') (\<lambda>description.
     and_then (capitalize description) (\<lambda>weather_desc.
     and_then (subscript main ''temp'') (\<lambda>temp.
     and_then (subscript main ''feels_like'') (\<lambda>feels_like.
     and_then (subscript main ''temp_min'') (\<lambda>temp_min.
     and_then (subscript main ''temp_max'') (\<lambda>temp_max.
     and_then (subscript main ''humidity'') (\<lambda>humidity.
     and_then (dict_get data ''wind'' (JObj [])) (\<lambda>wind.
     and_then (dict_get wind ''speed'' (JNum 0)) (\<lambda>wind_speed.
     and_then (dict_get data ''clouds'' (JObj [])) (\<lambda>clouds.
     and_then (dict_get clouds ''all'' (JNum 0)) (\<lambda>cloud_cover.
       Inr (JObj [(''temp'', temp), (''feels_like'', feels_like), (''temp_min'', temp_min),
                  (''temp_max'', temp_max), (''humidity'', humidity),
                  (''wind_speed'', wind_speed), (''clouds'', cloud_cover),
                  (''description'', weather_desc)])))))))))))))))"

text \<open>
  \<^verbatim>\<open>fetch_weather\<close> (lines 135-168): every exception of the request and of the parsing is
  caught and gives \<^verbatim>\<open>None\<close>.
\<close>

definition fetch_weather :: "env \<Rightarrow> json \<Rightarrow> json \<Rightarrow> world \<Rightarrow> json \<times> world" where
  "fetch_weather env lat lon w =
     (if \<not> key_set env then (JNull, w)
      else case weather_api env (length (trace w)) lat lon of
             HttpError \<Rightarrow> (JNull, emit (WeatherRequest lat lon) w)
           | HttpOk data \<Rightarrow>
               (case weather_fields data of
                  Inl e \<Rightarrow> (JNull, emit (WeatherRequest lat lon) w)
                | Inr result \<Rightarrow> (result, emit (WeatherRequest lat lon) w)))"

subsection \<open>Forecast cache\<close>

text \<open>
  Lines 179-186: the cached \<^verbatim>\<open>data\<close> when the entry of the place is fresh, \<open>None\<close> when
  a new forecast is needed. This part is outside the \<^verbatim>\<open>try\<close> block, so its exceptions
  leave the function. The \<^verbatim>\<open>and\<close> chain stops at its first false operand.
\<close>

definition cached_data :: "rat \<Rightarrow> json \<Rightarrow> string \<Rightarrow> exn + json option" where
  "cached_data now forecast_cache place =
     and_then (dict_get forecast_cache place JNull) (\<lambda>cached_entry.
       if \<not> truthy cached_entry then Inr None
       else
         and_then (dict_get cached_entry ''timestamp'' (JNum 0)) (\<lambda>cached_ts.
         and_then (dict_get cached_entry ''data'' (JObj [])) (\<lambda>data.
           case number cached_ts of
             None \<Rightarrow> Inl TypeError
           | Some ts \<Rightarrow>
               if \<not> (now - ts < FORECAST_REFRESH_INTERVAL) then Inr None
               else
                 and_then (contains ''max_rain_prob'' data) (\<lambda>has_prob.
                   if \<not> has_prob then Inr None
                   else
                     and_then (contains ''risk_level'' data) (\<lambda>has_risk.
                       if has_risk then Inr (Some data) else Inr None)))))"

text \<open>
  \<^verbatim>\<open>forecast_list[:4]\<close> and the iteration over the slice. A string can be sliced and
  iterated as well (its elements are strings of one character, approximated by bytes).
\<close>

definition slice4 :: "json \<Rightarrow> exn + json" where
  "slice4 x =
     (case x of
        JArr xs \<Rightarrow> Inr (JArr (take 4 xs))
      | JStr s \<Rightarrow> Inr (JStr (take 4 s))
      | _ \<Rightarrow> Inl TypeError)"

definition elements :: "json \<Rightarrow> exn + json list" where
  "elements x =
     (case x of
        JArr xs \<Rightarrow> Inr xs
      | JStr s \<Rightarrow> Inr (map (\<lambda>c. JStr [c]) s)
      | JObj kvs \<Rightarrow> Inr (map (\<lambda>kv. JStr (fst kv)) kvs)
      | _ \<Rightarrow> Inl TypeError)"

text \<open>Line 206, the generator: \<^verbatim>\<open>item.get("pop", 0) for item in next_12h\<close>.\<close>

fun pops :: "json list \<Rightarrow> exn + json list" where
  "pops [] = Inr []"
| "pops (item # rest) =
     and_then (dict_get item ''pop'' (JNum 0)) (\<lambda>p.
     and_then (pops rest) (\<lambda>ps. Inr (p # ps)))"

text \<open>
  Lines 206-216 need the values to be numbers: a value that is not makes a comparison
  raise \<^verbatim>\<open>TypeError\<close>, inside \<^verbatim>\<open>max\<close> or at \<^verbatim>\<open>max_pop >= 0.7\<close>. Both are in the \<^verbatim>\<open>try\<close>
  block, which treats all exceptions alike, so the model raises it at one place.
\<close>

fun numbers :: "json list \<Rightarrow> exn + rat list" where
  "numbers [] = Inr []"
| "numbers (p # ps) =
     (case number p of
        None \<Rightarrow> Inl TypeError
      | Some x \<Rightarrow> and_then (numbers ps) (\<lambda>xs. Inr (x # xs)))"

text \<open>\<^verbatim>\<open>max(..., default=0)\<close>: the first of the largest values.\<close>

definition py_max :: "rat list \<Rightarrow> rat" where
  "py_max xs = (case xs of [] \<Rightarrow> 0 | x # rest \<Rightarrow> foldl (\<lambda>m y. if m < y then y else m) x rest)"

text \<open>Lines 208-213.\<close>

definition risk_of :: "rat \<Rightarrow> string" where
  "risk_of max_pop =
     (if max_pop \<ge> 7 / 10 then ''HIGH''
      else if max_pop \<ge> 4 / 10 then ''MODERATE''
      else ''LOW'')"

text \<open>Lines 215-218.\<close>

definition summary_of :: "rat \<Rightarrow> json" where
  "summary_of max_pop =
     JObj [(''max_rain_prob'', JNum (of_int (py_round (max_pop * 100)))),
           (''risk_level'', JStr (risk_of max_pop))]"

text \<open>
  Lines 196-218, from the body of the response to the summary; \<open>Inr None\<close> is the
  \<^verbatim>\<open>return None\<close> of line 203 for a series without entries.
\<close>

definition forecast_summary :: "json \<Rightarrow> exn + json option" where
  "forecast_summary data =
     and_then (dict_get data ''list'' (JArr [])) (\<lambda>forecast_list.
     and_then (slice4 forecast_list) (\<lambda>next_12h.
       if \<not> truthy next_12h then Inr None
       else
         and_then (elements next_12h) (\<lambda>items.
         and_then (pops items) (\<lambda>ps.
         and_then (numbers ps) (\<lambda>xs. Inr (Some (summary_of (py_max xs))))))))"

text \<open>Lines 221-224.\<close>

definition cache_entry :: "rat \<Rightarrow> json \<Rightarrow> json" where
  "cache_entry now summary = JObj [(''timestamp'', JNum now), (''data'', summary)]"

text \<open>
  Lines 189-234, the \<^verbatim>\<open>try\<close> block and its handlers: the request, the summary, the
  update of the mapping that was loaded and its write; \<^verbatim>\<open>None\<close> after any exception.
\<close>

definition fetch_new :: "env \<Rightarrow> json \<Rightarrow> json \<Rightarrow> string \<Rightarrow> rat \<Rightarrow> json \<Rightarrow> world \<Rightarrow> json \<times> world" where
  "fetch_new env lat lon place now forecast_cache w =
     (case forecast_api env (length (trace w)) lat lon of
        HttpError \<Rightarrow> (JNull, emit (ForecastRequest lat lon) w)
      | HttpOk data \<Rightarrow>
          (case forecast_summary data of
             Inl e \<Rightarrow> (JNull, emit (ForecastRequest lat lon) w)
           | Inr None \<Rightarrow> (JNull, emit (ForecastRequest lat lon) w)
           | Inr (Some summary) \<Rightarrow>
               (case setitem forecast_cache place (cache_entry now summary) of
                  Inl e \<Rightarrow> (JNull, emit (ForecastRequest lat lon) w)
                | Inr updated \<Rightarrow>
                    (summary,
                     save_json FORECAST_CACHE_FILE updated (emit (ForecastRequest lat lon) w)))))"

text \<open>\<^verbatim>\<open>fetch_rain_probability\<close> (lines 170-234).\<close>

definition fetch_rain_probability ::
  "env \<Rightarrow> json \<Rightarrow> json \<Rightarrow> string \<Rightarrow> world \<Rightarrow> (exn + json) \<times> world" where
  "fetch_rain_probability env lat lon place w =
     (if \<not> key_set env then (Inr JNull, w)
      else
        let now = time_time env (length (trace w));
            w1 = emit TimeTime w;
            forecast_cache = load_json FORECAST_CACHE_FILE w1
        in case cached_data now forecast_cache place of
             Inl e \<Rightarrow> (Inl e, w1)
           | Inr (Some data) \<Rightarrow> (Inr data, w1)
           | Inr None \<Rightarrow>
               (case fetch_new env lat lon place now forecast_cache w1 of
                  (result, w2) \<Rightarrow> (Inr result, w2)))"

subsection \<open>The run\<close>

text \<open>Lines 262-296: the result of one location.\<close>

definition location_result :: "string \<Rightarrow> json \<Rightarrow> json \<Rightarrow> exn + json" where
  "location_result place weather rain =
     and_then
       (if truthy weather then
          and_then (subscript weather ''temp'') (\<lambda>temp.
          and_then (subscript weather ''feels_like'') (\<lambda>feels_like.
          and_then (subscript weather ''humidity'') (\<lambda>humidity.
          and_then (subscript weather ''wind_speed'') (\<lambda>wind_speed.
          and_then (subscript weather ''clouds'') (\<lambda>clouds.
          and_then (subscript weather ''description'') (\<lambda>description.
            Inr [(''temp'', temp), (''feels_like'', feels_like), (''humidity'', humidity),
                 (''wind_speed'', wind_speed), (''clouds'', clouds),
                 (''description'', description)]))))))
        else
          Inr [(''temp'', JNull), (''feels_like'', JNull), (''humidity'', JNull),
               (''wind_speed'', JNull), (''clouds'', JNull), (''description'', JNull)])
       (\<lambda>weather_part.
     and_then
       (if truthy rain then
          and_then (subscript rain ''max_rain_prob'') (\<lambda>prob.
          and_then (subscript rain ''risk_level'') (\<lambda>risk.
            Inr [(''rain_probability'', prob), (''risk'', risk)]))
        else Inr [(''rain_probability'', JNull), (''risk'', JStr ''UNKNOWN'')])
       (\<lambda>rain_part. Inr (JObj ((''place'', JStr place) # weather_part @ rain_part))))"

text \<open>
  Lines 256-299, the loop over \<^verbatim>\<open>locations_data.items()\<close>; an exception leaves the loop
  and the results collected so far are lost.
\<close>

fun process_locations ::
  "env \<Rightarrow> (string \<times> json) list \<Rightarrow> json list \<Rightarrow> world \<Rightarrow> (exn + json list) \<times> world" where
  "process_locations env [] weather_results w = (Inr weather_results, w)"
| "process_locations env ((place, cs) # rest) weather_results w =
     (case subscript cs ''lat'' of
        Inl e \<Rightarrow> (Inl e, w)
      | Inr lat \<Rightarrow>
     (case subscript cs ''lon'' of
        Inl e \<Rightarrow> (Inl e, w)
      | Inr lon \<Rightarrow>
     (case fetch_weather env lat lon w of
        (weather, w1) \<Rightarrow>
     (case fetch_rain_probability env lat lon place w1 of
        (Inl e, w2) \<Rightarrow> (Inl e, w2)
      | (Inr rain, w2) \<Rightarrow>
     (case location_result place weather rain of
        Inl e \<Rightarrow> (Inl e, w2)
      | Inr result \<Rightarrow> process_locations env rest (weather_results @ [result]) w2)))))"

text \<open>
  Line 252 takes \<^verbatim>\<open>len(locations_data)\<close> and line 256 its \<^verbatim>\<open>.items()\<close>: a number has
  no length, a list or a string no items.
\<close>

definition dict_items :: "json \<Rightarrow> exn + (string \<times> json) list" where
  "dict_items x =
     (case x of
        JObj kvs \<Rightarrow> Inr kvs
      | JArr _ \<Rightarrow> Inl AttributeError
      | JStr _ \<Rightarrow> Inl AttributeError
      | _ \<Rightarrow> Inl TypeError)"

text \<open>How a run ends: the two early returns, the normal end, the top-level handler.\<close>

datatype outcome = NoApiKey | NoLocations | Completed | Aborted exn

text \<open>Lines 301-305.\<close>

definition snapshot :: "string \<Rightarrow> json list \<Rightarrow> json" where
  "snapshot generated_at weather_results =
     JObj [(''generated_at'', JStr generated_at), (''locations'', JArr weather_results)]"

text \<open>\<^verbatim>\<open>main\<close> (lines 239-311).\<close>

definition main :: "env \<Rightarrow> world \<Rightarrow> outcome \<times> world" where
  "main env w =
     (if \<not> key_set env then (NoApiKey, w)
      else case get_location_cache env w of
        (Inl e, w1) \<Rightarrow> (Aborted e, w1)
      | (Inr location_cache, w1) \<Rightarrow>
     (case dict_get location_cache ''locations'' (JObj []) of
        Inl e \<Rightarrow> (Aborted e, w1)
      | Inr locations_data \<Rightarrow>
          if \<not> truthy locations_data then (NoLocations, w1)
          else
     (case dict_items locations_data of
        Inl e \<Rightarrow> (Aborted e, w1)
      | Inr items \<Rightarrow>
     (case process_locations env items [] w1 of
        (Inl e, w2) \<Rightarrow> (Aborted e, w2)
      | (Inr weather_results, w2) \<Rightarrow>
          (Completed,
           save_json WEATHER_DATA_FILE
             (snapshot (utc_isoformat env (length (trace w2))) weather_results)
             (emit DatetimeNow w2))))))"

subsection \<open>Historical record (\<^verbatim>\<open>test_historical.py\<close>)\<close>

text \<open>\<^verbatim>\<open>load_historical_data\<close> (lines 12-26).\<close>

definition load_historical_data :: "world \<Rightarrow> json list" where
  "load_historical_data w =
     (case files w HISTORICAL_DATA_FILE of
        Holds (JArr xs) \<Rightarrow> xs
      | Holds _ \<Rightarrow> []
      | Corrupt \<Rightarrow> []
      | Absent \<Rightarrow> [])"

text \<open>Lines 72-86: load the record, append the snapshot, save the record.\<close>

definition append_snapshot :: "json \<Rightarrow> world \<Rightarrow> world" where
  "append_snapshot snap w =
     save_json HISTORICAL_DATA_FILE (JArr (load_historical_data w @ [snap])) w"

subsection \<open>Notions of the specification\<close>

text \<open>How often a rebuild of the location cache was started, how often a forecast was requested.\<close>

definition rebuilds :: "world \<Rightarrow> nat" where
  "rebuilds w = count_list (trace w) RebuildStarted"

text \<open>The names that were sent to the geocoder, in the order of the calls.\<close>

fun geocoded :: "event list \<Rightarrow> string list" where
  "geocoded [] = []"
| "geocoded (Geocode place # es) = place # geocoded es"
| "geocoded (e # es) = geocoded es"

fun is_forecast_request :: "event \<Rightarrow> bool" where
  "is_forecast_request (ForecastRequest lat lon) = True"
| "is_forecast_request _ = False"

definition forecast_requests :: "world \<Rightarrow> nat" where
  "forecast_requests w = length (filter is_forecast_request (trace w))"

text \<open>
  The persisted shape of the location cache: a mapping whose \<^verbatim>\<open>locations\<close>, when there,
  is a mapping.
\<close>

definition location_cache_shape :: "json \<Rightarrow> bool" where
  "location_cache_shape cache =
     (case cache of
        JObj kvs \<Rightarrow>
          (case map_of kvs ''locations'' of
             None \<Rightarrow> True
           | Some (JObj entries) \<Rightarrow> True
           | Some _ \<Rightarrow> False)
      | _ \<Rightarrow> False)"

definition entries_of :: "json \<Rightarrow> (string \<times> json) list" where
  "entries_of cache =
     (case cache of
        JObj kvs \<Rightarrow> (case map_of kvs ''locations'' of Some (JObj entries) \<Rightarrow> entries | _ \<Rightarrow> [])
      | _ \<Rightarrow> [])"

text \<open>
  A location cache is valid when its fingerprint is the one of the configured names and
  every configured name is among its entries.
\<close>

definition cache_valid :: "string list \<Rightarrow> json \<Rightarrow> bool" where
  "cache_valid configured cache =
     ((case cache of
         JObj kvs \<Rightarrow> map_of kvs ''version'' = Some (JStr (hash_locations configured))
       | _ \<Rightarrow> False)
      \<and> list_all (\<lambda>name. name \<in> set (map fst (entries_of cache))) configured)"







text \<open>The writes among the events.\<close>

fun is_write :: "event \<Rightarrow> bool" where
  "is_write (FileWrite path) = True"
| "is_write _ = False"

text \<open>The events of a run that belong to the snapshot: reading its time and writing it.\<close>

fun snapshot_event :: "event \<Rightarrow> bool" where
  "snapshot_event DatetimeNow = True"
| "snapshot_event (FileWrite path) = (path = WEATHER_DATA_FILE)"
| "snapshot_event _ = False"

text \<open>
  The second world continues the first, and what happened in between has nothing to do
  with the snapshot.
\<close>

definition continues_quietly :: "world \<Rightarrow> world \<Rightarrow> bool" where
  "continues_quietly w w' =
     (take (length (trace w)) (trace w') = trace w
      \<and> list_all (\<lambda>e. \<not> snapshot_event e) (drop (length (trace w)) (trace w')))"

text \<open>
  The requests made for one location, and the reading of the claim that the time of the
  snapshot is taken at the start of the assembly: no request for a location happens
  before the time of the snapshot is read.
\<close>

fun location_request :: "event \<Rightarrow> bool" where
  "location_request (WeatherRequest lat lon) = True"
| "location_request (ForecastRequest lat lon) = True"
| "location_request _ = False"

definition before_stamp :: "event list \<Rightarrow> event list" where
  "before_stamp events = takeWhile (\<lambda>e. e \<noteq> DatetimeNow) events"

definition stamped_at_start :: "event list \<Rightarrow> bool" where
  "stamped_at_start events = list_all (\<lambda>e. \<not> location_request e) (before_stamp events)"

text \<open>The keys of the result of one location.\<close>

definition result_keys :: "string list" where
  "result_keys =
     [''place'', ''temp'', ''feels_like'', ''humidity'', ''wind_speed'', ''clouds'',
      ''description'', ''rain_probability'', ''risk'']"

fun is_location_result :: "json \<Rightarrow> bool" where
  "is_location_result (JObj kvs) = (map fst kvs = result_keys)"
| "is_location_result _ = False"

subsection \<open>An example environment\<close>

text \<open>
  One configured place, a clock that advances one second with every event, a geocoder
  that finds the place, and providers that answer with a clear sky and a series of five
  forecast entries.
\<close>

definition two_digits :: "nat \<Rightarrow> string" where
  "two_digits k = [''0123456789'' ! (k div 10 mod 10), ''0123456789'' ! (k mod 10)]"

definition demo_weather :: json where
  "demo_weather =
     JObj [(''main'', JObj [(''temp'', JNum 30), (''feels_like'', JNum 31),
                            (''temp_min'', JNum 29), (''temp_max'', JNum 32),
                            (''humidity'', JNum 50)]),
           (''weather'', JArr [JObj [(''description'', JStr ''clear sky'')]])]"

definition demo_forecast :: json where
  "demo_forecast =
     JObj [(''list'', JArr [JObj [(''pop'', JNum (7 / 10))], JObj [],
                            JObj [(''pop'', JNum (1 / 5))], JObj [(''pop'', JNum (2 / 5))],
                            JObj [(''pop'', JNum 1)]])]"

definition demo_env :: env where
  "demo_env =
     \<lparr>API_KEY = Some ''key'',
      LOCATIONS = [''Kano, Kano, Nigeria''],
      time_time = (\<lambda>k. 10000 + of_nat k),
      utc_isoformat = (\<lambda>k. ''1970-01-01T02:46:'' @ two_digits (40 + k) @ ''+00:00''),
      geocode = (\<lambda>k place. GeoFound 12 (17 / 2)),
      weather_api = (\<lambda>k lat lon. HttpOk demo_weather),
      forecast_api = (\<lambda>k lat lon. HttpOk demo_forecast)\<rparr>"

definition empty_disk :: world where
  "empty_disk = \<lparr>files = (\<lambda>path. Absent), trace = []\<rparr>"




text \<open>A location cache file that holds an array, and one that is valid for the example.\<close>

definition array_cache_disk :: world where
  "array_cache_disk =
     \<lparr>files = (\<lambda>path. Absent)(LOCATION_CACHE_FILE := Holds (JArr [JStr ''Kano, Kano, Nigeria''])),
      trace = []\<rparr>"

definition valid_cache_disk :: world where
  "valid_cache_disk =
     \<lparr>files = (\<lambda>path. Absent)
        (LOCATION_CACHE_FILE :=
           Holds (JObj [(''version'', JStr (hash_locations [''Kano, Kano, Nigeria''])),
                        (''locations'', JObj [(''Kano, Kano, Nigeria'', coords 12 (17 / 2))])])),
      trace = []\<rparr>"

text \<open>A location cache with the fingerprint of the example and no entry.\<close>

definition incomplete_cache_disk :: world where
  "incomplete_cache_disk =
     \<lparr>files = (\<lambda>path. Absent)
        (LOCATION_CACHE_FILE :=
           Holds (JObj [(''version'', JStr (hash_locations [''Kano, Kano, Nigeria''])),
                        (''locations'', JObj [])])),
      trace = []\<rparr>"

text \<open>A historical record file that holds an object instead of an array.\<close>

definition object_history_disk :: world where
  "object_history_disk =
     \<lparr>files = (\<lambda>path. Absent)(HISTORICAL_DATA_FILE := Holds (JObj [(''generated_at'', JStr ''x'')])),
      trace = []\<rparr>"

text \<open>The example with a forecast provider whose series is empty, and with one that fails.\<close>

definition empty_series_env :: env where
  "empty_series_env = demo_env\<lparr>forecast_api := (\<lambda>k lat lon. HttpOk (JObj [(''list'', JArr [])]))\<rparr>"


text \<open>The result of the example run for its one location.\<close>

definition demo_result :: json where
  "demo_result =
     JObj [(''place'', JStr ''Kano, Kano, Nigeria''), (''temp'', JNum 30),
           (''feels_like'', JNum 31), (''humidity'', JNum 50), (''wind_speed'', JNum 0),
           (''clouds'', JNum 0), (''description'', JStr ''Clear sky''),
           (''rain_probability'', JNum 70), (''risk'', JStr ''HIGH'')]"

section \<open>Properties\<close>

lemma sort_mset_cong:
  fixes xs ys :: "'a::linorder list"
  assumes "mset xs = mset ys"
  shows "sort xs = sort ys"
proof -
  have "mset (sort ys) = mset xs" using assms by simp
  moreover have "sorted (sort ys)" by simp
  ultimately show ?thesis by (rule properties_for_sort)
qed

text \<open>
  Claim C7. The fingerprint of a list of location names depends only on the names and how
  often each occurs, not on their order: any permutation of the list has the same digest.
  The function is pure (it neither reads nor changes the world).
\<close>

theorem hash_locations_permutation:
  "mset xs = mset ys \<Longrightarrow> hash_locations xs = hash_locations ys"
  by (simp add: hash_locations_def sort_mset_cong [of xs ys])

theorem hash_locations_permutation_witness:
  "mset [''A'', ''B''] = mset [''B'', ''A'']
   \<and> hash_locations [''A'', ''B''] = hash_locations [''B'', ''A'']"
proof -
  have h: "mset [''A'', ''B''] = mset [''B'', ''A'']" by simp
  from hash_locations_permutation [OF h] h show ?thesis by simp
qed


lemma and_then_simps [simp]:
  "and_then (Inl e) f = Inl e"
  "and_then (Inr v) f = f v"
  by (simp_all add: and_then_def)

subsection \<open>The fingerprint is not injective\<close>

lemma join_sorted_a_b: "join ''|'' (sort [''a'', ''b'']) = ''a|b''"
  by (simp add: list_le_def list_less_def less_char_def less_eq_char_def)

text \<open>
  Claim C9. The names are joined with \<open>|\<close> before hashing, so the one name \<open>a|b\<close> and the
  two names \<open>a\<close>, \<open>b\<close> are different configurations with the same fingerprint; for a
  cache that was built under the first, the version test of line 120 under the second
  finds no difference.
\<close>

theorem hash_locations_separator_collision:
  "[''a|b''] \<noteq> [''a'', ''b'']
   \<and> hash_locations [''a|b''] = hash_locations [''a'', ''b'']
   \<and> version_differs (fst (build_location_cache (env\<lparr>LOCATIONS := [''a|b'']\<rparr>) w))
         (hash_locations (LOCATIONS (env\<lparr>LOCATIONS := [''a'', ''b'']\<rparr>))) = Inr False"
proof -
  have h: "hash_locations [''a|b''] = hash_locations [''a'', ''b'']"
    unfolding hash_locations_def using join_sorted_a_b by simp
  have "version_differs (fst (build_location_cache (env\<lparr>LOCATIONS := [''a|b'']\<rparr>) w))
          (hash_locations [''a|b'']) = Inr False"
    by (simp add: build_location_cache_def version_differs_def dict_get_def Let_def
        split: prod.splits)
  with h show ?thesis by simp
qed

subsection \<open>A location cache file of the wrong shape\<close>

text \<open>
  Claim C10. \<^verbatim>\<open>load_json\<close> returns the document a file holds, whatever its shape. When the
  location cache file holds an array that is not empty, \<^verbatim>\<open>get_location_cache\<close> raises
  (\<^verbatim>\<open>AttributeError\<close>, at \<^verbatim>\<open>cache.get\<close>) and rebuilds nothing, and the run ends in the
  handler of \<^verbatim>\<open>main\<close> with the world as it was: no snapshot is written.
\<close>

theorem non_mapping_location_cache_aborts:
  "(files w path = Holds v \<longrightarrow> load_json path w = v)
   \<and> (files w LOCATION_CACHE_FILE = Holds (JArr (x # xs)) \<longrightarrow>
        get_location_cache env w = (Inl AttributeError, w)
        \<and> (key_set env \<longrightarrow> main env w = (Aborted AttributeError, w)))"
  by (simp add: load_json_def get_location_cache_def version_differs_def dict_get_def main_def)

theorem non_mapping_location_cache_aborts_witness:
  "files array_cache_disk LOCATION_CACHE_FILE = Holds (JArr [JStr ''Kano, Kano, Nigeria''])
   \<and> key_set demo_env
   \<and> load_json LOCATION_CACHE_FILE array_cache_disk = JArr [JStr ''Kano, Kano, Nigeria'']
   \<and> get_location_cache demo_env array_cache_disk = (Inl AttributeError, array_cache_disk)
   \<and> main demo_env array_cache_disk = (Aborted AttributeError, array_cache_disk)"
  using non_mapping_location_cache_aborts
          [of array_cache_disk LOCATION_CACHE_FILE "JArr [JStr ''Kano, Kano, Nigeria'']"
              "JStr ''Kano, Kano, Nigeria''" "[]" demo_env]
  by (simp add: array_cache_disk_def demo_env_def key_set_def)

subsection \<open>The historical record\<close>

lemma load_after_append:
  "load_historical_data (append_snapshot s w) = load_historical_data w @ [s]"
  by (simp add: load_historical_data_def append_snapshot_def save_json_def)

lemma load_after_appends:
  "load_historical_data (foldl (\<lambda>w s. append_snapshot s w) w snaps)
     = load_historical_data w @ snaps"
  by (induction snaps arbitrary: w) (simp_all add: load_after_append)

text \<open>
  Claim C6. Loading the historical record gives the array the file holds, and the empty
  sequence when the file is absent, does not parse, or holds a document that is not an
  array. Appending snapshots one after the other to an empty record gives exactly the
  appended snapshots, in order; one append after a file that holds an object gives a
  record of length one.
\<close>

theorem historical_record_append:
  "(files w HISTORICAL_DATA_FILE = Holds (JArr xs) \<longrightarrow> load_historical_data w = xs)
   \<and> (files w HISTORICAL_DATA_FILE = Absent \<longrightarrow> load_historical_data w = [])
   \<and> (files w HISTORICAL_DATA_FILE = Corrupt \<longrightarrow> load_historical_data w = [])
   \<and> (files w HISTORICAL_DATA_FILE = Holds v \<and> (\<forall>ys. v \<noteq> JArr ys) \<longrightarrow>
        load_historical_data w = [])
   \<and> (load_historical_data w = [] \<longrightarrow>
        load_historical_data (foldl (\<lambda>w s. append_snapshot s w) w snaps) = snaps
        \<and> length (load_historical_data (foldl (\<lambda>w s. append_snapshot s w) w snaps))
            = length snaps
        \<and> (\<forall>i < length snaps.
              load_historical_data (foldl (\<lambda>w s. append_snapshot s w) w snaps) ! i = snaps ! i))
   \<and> (files w HISTORICAL_DATA_FILE = Holds (JObj kvs) \<longrightarrow>
        load_historical_data (append_snapshot s w) = [s]
        \<and> length (load_historical_data (append_snapshot s w)) = 1)"
proof -
  have a: "files w HISTORICAL_DATA_FILE = Holds v \<and> (\<forall>ys. v \<noteq> JArr ys) \<longrightarrow>
             load_historical_data w = []"
    by (cases v) (simp_all add: load_historical_data_def)
  have b: "files w HISTORICAL_DATA_FILE = Holds (JObj kvs) \<longrightarrow> load_historical_data w = []"
    by (simp add: load_historical_data_def)
  show ?thesis
    using a b
    by (simp add: load_after_appends load_after_append) (simp add: load_historical_data_def)
qed

theorem historical_record_append_witness:
  "files empty_disk HISTORICAL_DATA_FILE = Absent
   \<and> load_historical_data empty_disk = []
   \<and> load_historical_data
        (foldl (\<lambda>w s. append_snapshot s w) empty_disk [JStr ''first'', JStr ''second''])
       = [JStr ''first'', JStr ''second'']
   \<and> files object_history_disk HISTORICAL_DATA_FILE = Holds (JObj [(''generated_at'', JStr ''x'')])
   \<and> load_historical_data (append_snapshot (JStr ''first'') object_history_disk)
       = [JStr ''first'']"
  using historical_record_append
          [of empty_disk "[]" JNull "[JStr ''first'', JStr ''second'']" "[]" JNull]
        historical_record_append
          [of object_history_disk "[]" JNull "[]" "[(''generated_at'', JStr ''x'')]"
              "JStr ''first''"]
  by (simp add: empty_disk_def object_history_disk_def)

subsection \<open>Validity of the location cache\<close>

lemma all_present_shape:
  assumes "location_cache_shape cache"
  shows "all_present names cache
           = Inr (list_all (\<lambda>name. name \<in> set (map fst (entries_of cache))) names)"
  using assms
  by (induction names)
     (auto simp: location_cache_shape_def entries_of_def dict_get_def contains_def
           split: json.splits option.splits)

lemma version_differs_shape:
  assumes "location_cache_shape cache"
  shows "version_differs cache h
           = Inr (\<not> (case cache of JObj kvs \<Rightarrow> map_of kvs ''version'' = Some (JStr h)
                     | _ \<Rightarrow> False))"
  using assms
  by (auto simp: location_cache_shape_def version_differs_def dict_get_def
           split: json.splits option.splits)

lemma rebuilds_emit:
  "rebuilds (emit e w) = rebuilds w + (if e = RebuildStarted then 1 else 0)"
  by (simp add: rebuilds_def emit_def)

lemma rebuilds_geocode_all:
  "rebuilds (snd (geocode_all env places locs w)) = rebuilds w"
  by (induction places arbitrary: locs w) (auto simp: rebuilds_emit split: geo.splits)

lemma rebuilds_build:
  "rebuilds (snd (build_location_cache env w)) = rebuilds w + 1"
proof -
  obtain locs w' where g: "geocode_all env (LOCATIONS env) [] (emit RebuildStarted w) = (locs, w')"
    by (cases "geocode_all env (LOCATIONS env) [] (emit RebuildStarted w)")
  have "rebuilds w' = rebuilds (emit RebuildStarted w)"
    using rebuilds_geocode_all [of env "LOCATIONS env" "[]" "emit RebuildStarted w"] g by simp
  then show ?thesis
    using g by (simp add: build_location_cache_def rebuilds_emit Let_def)
       (simp add: rebuilds_def save_json_def)
qed

lemma geocoded_append: "geocoded (es @ fs) = geocoded es @ geocoded fs"
  by (induction es rule: geocoded.induct) simp_all

lemma geocoded_geocode_all:
  "geocoded (trace (snd (geocode_all env places locs w))) = geocoded (trace w) @ places"
  by (induction places arbitrary: locs w)
     (auto simp: emit_def geocoded_append split: geo.splits)

lemma geocoded_build:
  "geocoded (trace (snd (build_location_cache env w))) = geocoded (trace w) @ LOCATIONS env"
  using geocoded_geocode_all [of env "LOCATIONS env" "[]" "emit RebuildStarted w"]
  by (simp add: build_location_cache_def split_beta Let_def save_json_def emit_def
        geocoded_append)

text \<open>
  Claim C3. For a location cache file that is absent, does not parse, or holds a mapping
  (whose \<^verbatim>\<open>locations\<close>, when there, is a mapping): when the loaded cache is valid, that
  is its fingerprint is the one of the configured names and every configured name is
  among its entries, \<^verbatim>\<open>get_location_cache\<close> returns it as it is and changes nothing;
  in every other case (an empty cache, another fingerprint, a configured name that is
  missing although the fingerprint matches) it returns what one full rebuild returns:
  exactly one rebuild has been started, and it has sent every configured name to the
  geocoder once, in order, not only the missing ones.
\<close>

theorem get_location_cache_rebuilds_once:
  assumes "location_cache_shape (load_json LOCATION_CACHE_FILE w)"
  shows "(cache_valid (LOCATIONS env) (load_json LOCATION_CACHE_FILE w) \<longrightarrow>
            get_location_cache env w = (Inr (load_json LOCATION_CACHE_FILE w), w))
         \<and> (\<not> cache_valid (LOCATIONS env) (load_json LOCATION_CACHE_FILE w) \<longrightarrow>
              get_location_cache env w
                = (Inr (fst (build_location_cache env w)), snd (build_location_cache env w))
              \<and> rebuilds (snd (get_location_cache env w)) = rebuilds w + 1
              \<and> geocoded (trace (snd (get_location_cache env w)))
                  = geocoded (trace w) @ LOCATIONS env)"
  using assms
  by (simp add: get_location_cache_def Let_def cache_valid_def version_differs_shape
        all_present_shape rebuilds_build geocoded_build split_beta)

theorem get_location_cache_rebuilds_once_witness:
  "location_cache_shape (load_json LOCATION_CACHE_FILE valid_cache_disk)
   \<and> cache_valid (LOCATIONS demo_env) (load_json LOCATION_CACHE_FILE valid_cache_disk)
   \<and> get_location_cache demo_env valid_cache_disk
       = (Inr (load_json LOCATION_CACHE_FILE valid_cache_disk), valid_cache_disk)
   \<and> location_cache_shape (load_json LOCATION_CACHE_FILE incomplete_cache_disk)
   \<and> \<not> cache_valid (LOCATIONS demo_env) (load_json LOCATION_CACHE_FILE incomplete_cache_disk)
   \<and> rebuilds (snd (get_location_cache demo_env incomplete_cache_disk))
       = rebuilds incomplete_cache_disk + 1
   \<and> location_cache_shape (load_json LOCATION_CACHE_FILE empty_disk)
   \<and> \<not> cache_valid (LOCATIONS (demo_env\<lparr>LOCATIONS := source_LOCATIONS\<rparr>))
         (load_json LOCATION_CACHE_FILE empty_disk)
   \<and> rebuilds (snd (get_location_cache (demo_env\<lparr>LOCATIONS := source_LOCATIONS\<rparr>) empty_disk))
       = rebuilds empty_disk + 1
   \<and> geocoded (trace (snd (get_location_cache (demo_env\<lparr>LOCATIONS := source_LOCATIONS\<rparr>)
        empty_disk))) = geocoded (trace empty_disk) @ source_LOCATIONS"
proof -
  let ?env = "demo_env\<lparr>LOCATIONS := source_LOCATIONS\<rparr>"
  have s1: "location_cache_shape (load_json LOCATION_CACHE_FILE valid_cache_disk)"
    by (simp add: location_cache_shape_def load_json_def valid_cache_disk_def)
  have v1: "cache_valid (LOCATIONS demo_env) (load_json LOCATION_CACHE_FILE valid_cache_disk)"
    by (simp add: cache_valid_def load_json_def valid_cache_disk_def demo_env_def
        entries_of_def coords_def)
  have s2: "location_cache_shape (load_json LOCATION_CACHE_FILE incomplete_cache_disk)"
    by (simp add: location_cache_shape_def load_json_def incomplete_cache_disk_def)
  have v2: "\<not> cache_valid (LOCATIONS demo_env)
              (load_json LOCATION_CACHE_FILE incomplete_cache_disk)"
    by (simp add: cache_valid_def load_json_def incomplete_cache_disk_def demo_env_def
        entries_of_def)
  have s3: "location_cache_shape (load_json LOCATION_CACHE_FILE empty_disk)"
    by (simp add: location_cache_shape_def load_json_def empty_disk_def)
  have v3: "\<not> cache_valid (LOCATIONS ?env) (load_json LOCATION_CACHE_FILE empty_disk)"
    by (simp add: cache_valid_def load_json_def empty_disk_def)
  have a: "get_location_cache demo_env valid_cache_disk
             = (Inr (load_json LOCATION_CACHE_FILE valid_cache_disk), valid_cache_disk)"
    using get_location_cache_rebuilds_once [OF s1, of demo_env] v1 by blast
  have b: "rebuilds (snd (get_location_cache demo_env incomplete_cache_disk))
             = rebuilds incomplete_cache_disk + 1"
    using get_location_cache_rebuilds_once [OF s2, of demo_env] v2 by blast
  have c: "rebuilds (snd (get_location_cache ?env empty_disk)) = rebuilds empty_disk + 1"
    and d: "geocoded (trace (snd (get_location_cache ?env empty_disk)))
              = geocoded (trace empty_disk) @ LOCATIONS ?env"
    using get_location_cache_rebuilds_once [OF s3, of ?env] v3 by blast+
  have e: "LOCATIONS ?env = source_LOCATIONS" by simp
  from s1 v1 a s2 v2 b s3 v3 c d e show ?thesis by metis
qed

subsection \<open>Freshness of the forecast cache\<close>

lemma and_then_Inr_iff:
  "and_then r f = Inr y \<longleftrightarrow> (\<exists>v. r = Inr v \<and> f v = Inr y)"
  by (cases r) simp_all


lemma forecast_requests_emit:
  "forecast_requests (emit e w) = forecast_requests w + (if is_forecast_request e then 1 else 0)"
  by (simp add: forecast_requests_def emit_def)

lemma forecast_requests_save:
  "forecast_requests (save_json path d w) = forecast_requests w"
  by (simp add: forecast_requests_def save_json_def)

lemma forecast_requests_fetch_new:
  "forecast_requests (snd (fetch_new env lat lon place now c w)) = forecast_requests w + 1"
  by (simp add: fetch_new_def forecast_requests_emit forecast_requests_save
        split: http.splits sum.splits option.splits)

lemma load_json_emit: "load_json path (emit e w) = load_json path w"
  by (simp add: load_json_def emit_def)

lemma trace_emit: "trace (emit e w) = trace w @ [e]"
  by (simp add: emit_def)

lemma files_emit: "files (emit e w) = files w"
  by (simp add: emit_def)



lemma py_round_of_int [simp]: "py_round (of_int n) = n"
  by (simp add: py_round_def)

lemma py_round_numeral [simp]: "py_round (numeral n) = numeral n"
  using py_round_of_int [of "numeral n"] by simp

lemma py_round_zero [simp]: "py_round 0 = 0"
  using py_round_of_int [of 0] by simp


subsection \<open>What a forecast fetch writes\<close>


lemma cached_data_is_mapping:
  "cached_data now c place = Inr r \<Longrightarrow> \<exists>kvs. c = JObj kvs"
  by (cases c) (simp_all add: cached_data_def dict_get_def)

lemma cached_data_not_null:
  "cached_data now c place \<noteq> Inr (Some JNull)"
  by (auto simp: cached_data_def and_then_Inr_iff contains_def
        split: if_splits option.splits)

lemma fetch_new_cases:
  "fetch_new env lat lon place now (JObj kvs) w =
     (case forecast_api env (length (trace w)) lat lon of
        HttpError \<Rightarrow> (JNull, emit (ForecastRequest lat lon) w)
      | HttpOk data \<Rightarrow>
          (case forecast_summary data of
             Inr (Some s) \<Rightarrow>
               (s, save_json FORECAST_CACHE_FILE (JObj (AList.update place (cache_entry now s) kvs))
                     (emit (ForecastRequest lat lon) w))
           | _ \<Rightarrow> (JNull, emit (ForecastRequest lat lon) w)))"
  by (simp add: fetch_new_def setitem_def split: http.splits sum.splits option.splits)

lemma forecast_summary_not_null:
  "forecast_summary data \<noteq> Inr (Some JNull)"
  by (auto simp: forecast_summary_def and_then_Inr_iff summary_of_def split: if_splits)

lemma fetch_rain_probability_cases:
  assumes "fetch_rain_probability env lat lon place w = (r, w')"
  shows "(r = Inr JNull \<and> w' = w \<and> \<not> key_set env)
       \<or> (\<exists>e. r = Inl e \<and> w' = emit TimeTime w)
       \<or> (\<exists>d. r = Inr d \<and> d \<noteq> JNull \<and> w' = emit TimeTime w
              \<and> cached_data (time_time env (length (trace w)))
                   (load_json FORECAST_CACHE_FILE w) place = Inr (Some d))
       \<or> (\<exists>kvs. key_set env \<and> load_json FORECAST_CACHE_FILE w = JObj kvs
              \<and> cached_data (time_time env (length (trace w))) (JObj kvs) place = Inr None
              \<and> (r, w') = (case fetch_new env lat lon place (time_time env (length (trace w)))
                              (JObj kvs) (emit TimeTime w) of (x, y) \<Rightarrow> (Inr x, y)))"
proof (cases "key_set env")
  case False
  with assms show ?thesis by (simp add: fetch_rain_probability_def)
next
  case True
  let ?now = "time_time env (length (trace w))"
  let ?c = "load_json FORECAST_CACHE_FILE w"
  show ?thesis
  proof (cases "cached_data ?now ?c place")
    case (Inl e)
    with assms True show ?thesis
      by (auto simp: fetch_rain_probability_def Let_def load_json_emit)
  next
    case (Inr found)
    then obtain kvs where kvs: "?c = JObj kvs" using cached_data_is_mapping by blast
    show ?thesis
    proof (cases found)
      case None
      with assms True Inr kvs show ?thesis
        by (auto simp: fetch_rain_probability_def Let_def load_json_emit split: prod.splits)
    next
      case (Some d)
      with Inr cached_data_not_null [of ?now ?c place] have "d \<noteq> JNull" by auto
      with assms True Inr Some show ?thesis
        by (auto simp: fetch_rain_probability_def Let_def load_json_emit)
    qed
  qed
qed

lemma fetch_outcome:
  assumes "fetch_rain_probability env lat lon place w = (r, w')"
  shows "(forecast_requests w' = forecast_requests w
            \<and> files w' = files w
            \<and> list_all (\<lambda>e. \<not> is_write e) (drop (length (trace w)) (trace w')))
       \<or> (\<exists>kvs. key_set env \<and> load_json FORECAST_CACHE_FILE w = JObj kvs
              \<and> cached_data (time_time env (length (trace w))) (JObj kvs) place = Inr None
              \<and> forecast_requests w' = forecast_requests w + 1
              \<and> (case forecast_api env (length (trace w) + 1) lat lon of
                    HttpError \<Rightarrow>
                      r = Inr JNull \<and> w' = emit (ForecastRequest lat lon) (emit TimeTime w)
                  | HttpOk data \<Rightarrow>
                      (case forecast_summary data of
                         Inr (Some s) \<Rightarrow>
                           r = Inr s \<and> s \<noteq> JNull
                           \<and> w' = save_json FORECAST_CACHE_FILE
                                   (JObj (AList.update place
                                      (cache_entry (time_time env (length (trace w))) s) kvs))
                                   (emit (ForecastRequest lat lon) (emit TimeTime w))
                       | _ \<Rightarrow>
                           r = Inr JNull
                           \<and> w' = emit (ForecastRequest lat lon) (emit TimeTime w))))"
proof -
  from fetch_rain_probability_cases [OF assms]
  consider
      (nokey) "r = Inr JNull" "w' = w"
    | (raised) e where "r = Inl e" "w' = emit TimeTime w"
    | (cached) d where "r = Inr d" "w' = emit TimeTime w"
    | (fetched) kvs where "key_set env" "load_json FORECAST_CACHE_FILE w = JObj kvs"
        "cached_data (time_time env (length (trace w))) (JObj kvs) place = Inr None"
        "(r, w') = (case fetch_new env lat lon place (time_time env (length (trace w)))
                           (JObj kvs) (emit TimeTime w) of (x, y) \<Rightarrow> (Inr x, y))"
    by blast
  then show ?thesis
  proof cases
    case nokey
    then show ?thesis by simp
  next
    case raised
    then show ?thesis by (simp add: forecast_requests_emit files_emit trace_emit)
  next
    case cached
    then show ?thesis by (simp add: forecast_requests_emit files_emit trace_emit)
  next
    case fetched
    have n: "forecast_summary data \<noteq> Inr (Some JNull)" for data
      by (rule forecast_summary_not_null)
    have "forecast_requests w' = forecast_requests w + 1"
      using fetched(4) forecast_requests_fetch_new
              [of env lat lon place "time_time env (length (trace w))" "JObj kvs" "emit TimeTime w"]
      by (simp add: split_beta forecast_requests_emit)
    moreover have "case forecast_api env (length (trace w) + 1) lat lon of
                    HttpError \<Rightarrow>
                      r = Inr JNull \<and> w' = emit (ForecastRequest lat lon) (emit TimeTime w)
                  | HttpOk data \<Rightarrow>
                      (case forecast_summary data of
                         Inr (Some s) \<Rightarrow>
                           r = Inr s \<and> s \<noteq> JNull
                           \<and> w' = save_json FORECAST_CACHE_FILE
                                   (JObj (AList.update place
                                      (cache_entry (time_time env (length (trace w))) s) kvs))
                                   (emit (ForecastRequest lat lon) (emit TimeTime w))
                       | _ \<Rightarrow>
                           r = Inr JNull
                           \<and> w' = emit (ForecastRequest lat lon) (emit TimeTime w))"
      using fetched(4) n
      by (auto simp: fetch_new_cases trace_emit split: http.splits sum.splits option.splits)
    ultimately show ?thesis using fetched(1,2,3) by blast
  qed
qed



lemma demo_forecast_summary:
  "forecast_summary demo_forecast
     = Inr (Some (JObj [(''max_rain_prob'', JNum 70), (''risk_level'', JStr ''HIGH'')]))"
  by (simp add: forecast_summary_def demo_forecast_def dict_get_def slice4_def elements_def
        py_max_def summary_of_def risk_of_def)




subsection \<open>The summary of a fetched forecast\<close>









subsection \<open>An empty forecast series\<close>

lemma empty_series_fetch:
  "fetch_rain_probability empty_series_env (JNum 12) (JNum (17 / 2)) ''Kano, Kano, Nigeria''
     empty_disk
   = (Inr JNull, \<lparr>files = (\<lambda>path. Absent),
                  trace = [TimeTime, ForecastRequest (JNum 12) (JNum (17 / 2))]\<rparr>)"
  by (simp add: fetch_rain_probability_def fetch_new_def cached_data_def forecast_summary_def
        slice4_def dict_get_def load_json_def emit_def key_set_def Let_def demo_env_def
        empty_series_env_def empty_disk_def)

text \<open>
  Claim C4, as stated, fails: for a provider that answers with an empty series the
  function returns \<^verbatim>\<open>None\<close>, not the summary with probability 0 and risk LOW (line 201
  returns before \<^verbatim>\<open>max(..., default=0)\<close> is reached).
\<close>

theorem empty_series_low_summary_counterexample:
  "fst (fetch_rain_probability empty_series_env (JNum 12) (JNum (17 / 2))
          ''Kano, Kano, Nigeria'' empty_disk) = Inr JNull
   \<and> fst (fetch_rain_probability empty_series_env (JNum 12) (JNum (17 / 2))
            ''Kano, Kano, Nigeria'' empty_disk)
       \<noteq> Inr (JObj [(''max_rain_prob'', JNum 0), (''risk_level'', JStr ''LOW'')])"
  by (simp add: empty_series_fetch)

text \<open>
  Claim C4, amended. If the forecast provider is asked and answers with an empty series
  (an empty \<^verbatim>\<open>list\<close> or none), \<^verbatim>\<open>fetch_rain_probability\<close> returns \<^verbatim>\<open>None\<close> and leaves
  every file, the forecast cache included, as it was.
\<close>

theorem empty_series_gives_no_summary:
  assumes "fetch_rain_probability env lat lon place w = (r, w')"
    and "forecast_requests w' = forecast_requests w + 1"
    and "forecast_api env (length (trace w) + 1) lat lon = HttpOk (JObj members)"
    and "map_of members ''list'' = Some (JArr []) \<or> map_of members ''list'' = None"
  shows "r = Inr JNull \<and> files w' = files w"
proof -
  from assms(4) have "forecast_summary (JObj members) = Inr None"
    by (auto simp: forecast_summary_def dict_get_def slice4_def)
  with fetch_outcome [OF assms(1)] assms(2,3) show ?thesis
    by (auto simp: files_emit)
qed

theorem empty_series_gives_no_summary_witness:
  "fetch_rain_probability empty_series_env (JNum 12) (JNum (17 / 2)) ''Kano, Kano, Nigeria''
     empty_disk
    = (Inr JNull, \<lparr>files = (\<lambda>path. Absent),
                   trace = [TimeTime, ForecastRequest (JNum 12) (JNum (17 / 2))]\<rparr>)
   \<and> forecast_requests \<lparr>files = (\<lambda>path. Absent),
                         trace = [TimeTime, ForecastRequest (JNum 12) (JNum (17 / 2))]\<rparr>
       = forecast_requests empty_disk + 1
   \<and> forecast_api empty_series_env (length (trace empty_disk) + 1) (JNum 12) (JNum (17 / 2))
       = HttpOk (JObj [(''list'', JArr [])])
   \<and> map_of [(''list'', JArr [])] ''list'' = Some (JArr [])
   \<and> files \<lparr>files = (\<lambda>path. Absent),
             trace = [TimeTime, ForecastRequest (JNum 12) (JNum (17 / 2))]\<rparr> = files empty_disk"
proof -
  have q: "forecast_requests \<lparr>files = (\<lambda>path. Absent),
                         trace = [TimeTime, ForecastRequest (JNum 12) (JNum (17 / 2))]\<rparr>
       = forecast_requests empty_disk + 1"
    by (simp add: forecast_requests_def empty_disk_def)
  have a: "forecast_api empty_series_env (length (trace empty_disk) + 1) (JNum 12) (JNum (17 / 2))
       = HttpOk (JObj [(''list'', JArr [])])"
    by (simp add: empty_series_env_def)
  have l: "map_of [(''list'', JArr [])] ''list'' = Some (JArr [])
           \<or> map_of [(''list'', JArr [])] ''list'' = None"
    by simp
  from empty_series_gives_no_summary [OF empty_series_fetch q a l] empty_series_fetch q a
  show ?thesis by simp
qed

subsection \<open>The time of the snapshot\<close>

lemma quiet_refl: "continues_quietly w w"
  by (simp add: continues_quietly_def)

lemma quiet_trans:
  assumes "continues_quietly w1 w2" and "continues_quietly w2 w3"
  shows "continues_quietly w1 w3"
proof -
  from assms(1) obtain es where es: "trace w2 = trace w1 @ es" "list_all (\<lambda>e. \<not> snapshot_event e) es"
    unfolding continues_quietly_def by (metis append_take_drop_id)
  from assms(2) obtain fs where fs: "trace w3 = trace w2 @ fs" "list_all (\<lambda>e. \<not> snapshot_event e) fs"
    unfolding continues_quietly_def by (metis append_take_drop_id)
  from es fs show ?thesis by (simp add: continues_quietly_def)
qed

lemma quiet_emit: "\<not> snapshot_event e \<Longrightarrow> continues_quietly w (emit e w)"
  by (simp add: continues_quietly_def emit_def)

lemma quiet_save: "path \<noteq> WEATHER_DATA_FILE \<Longrightarrow> continues_quietly w (save_json path d w)"
  by (simp add: continues_quietly_def save_json_def)

lemma quiet_emit_after:
  "continues_quietly w w1 \<Longrightarrow> \<not> snapshot_event e \<Longrightarrow> continues_quietly w (emit e w1)"
  using quiet_trans quiet_emit by blast

lemma quiet_save_after:
  "continues_quietly w w1 \<Longrightarrow> path \<noteq> WEATHER_DATA_FILE \<Longrightarrow>
     continues_quietly w (save_json path d w1)"
  using quiet_trans quiet_save by blast

lemma quiet_fetch_weather: "continues_quietly w (snd (fetch_weather env lat lon w))"
  by (simp add: fetch_weather_def quiet_refl quiet_emit split: http.splits sum.splits)

lemma quiet_fetch_new: "continues_quietly w (snd (fetch_new env lat lon place now c w))"
  by (simp add: fetch_new_def quiet_emit quiet_save_after
        split: http.splits sum.splits option.splits)

lemma quiet_fetch_rain: "continues_quietly w (snd (fetch_rain_probability env lat lon place w))"
proof -
  have "continues_quietly w (emit TimeTime w)" by (simp add: quiet_emit)
  moreover have "continues_quietly (emit TimeTime w)
                   (snd (fetch_new env lat lon place now c (emit TimeTime w)))" for now c
    by (rule quiet_fetch_new)
  ultimately show ?thesis
    by (auto simp: fetch_rain_probability_def Let_def quiet_refl split_beta
          split: sum.splits option.splits intro: quiet_trans)
qed

lemma quiet_geocode_all: "continues_quietly w (snd (geocode_all env places locs w))"
proof (induction places arbitrary: locs w)
  case Nil
  then show ?case by (simp add: quiet_refl)
next
  case (Cons place rest)
  have a: "continues_quietly w (emit (Geocode place) w)" by (simp add: quiet_emit)
  have b: "continues_quietly w (emit Sleep (emit (Geocode place) w))"
    by (simp add: quiet_emit_after [OF a])
  show ?case
    using Cons.IH a b by (auto split: geo.splits intro: quiet_trans)
qed

lemma quiet_build: "continues_quietly w (snd (build_location_cache env w))"
proof -
  have a: "continues_quietly w (emit RebuildStarted w)" by (simp add: quiet_emit)
  have b: "continues_quietly (emit RebuildStarted w)
             (snd (geocode_all env (LOCATIONS env) [] (emit RebuildStarted w)))"
    by (rule quiet_geocode_all)
  from quiet_trans [OF a b] show ?thesis
    by (simp add: build_location_cache_def split_beta Let_def quiet_save_after)
qed

lemma quiet_get_location_cache: "continues_quietly w (snd (get_location_cache env w))"
  by (simp add: get_location_cache_def Let_def split_beta quiet_refl quiet_build
        split: sum.splits)

lemma location_result_keys:
  assumes "location_result place weather rain = Inr r"
  shows "is_location_result r"
  using assms
  by (auto simp: location_result_def and_then_Inr_iff result_keys_def split: if_splits)

lemma process_locations_quiet_results:
  assumes "list_all is_location_result acc"
  shows "continues_quietly w (snd (process_locations env items acc w))
         \<and> (\<forall>results. fst (process_locations env items acc w) = Inr results \<longrightarrow>
               list_all is_location_result results)"
  using assms
proof (induction items arbitrary: acc w)
  case Nil
  then show ?case by (simp add: quiet_refl)
next
  case (Cons item rest)
  obtain place cs where item: "item = (place, cs)" by (cases item)
  show ?case
  proof (cases "subscript cs ''lat''")
    case (Inl e)
    then show ?thesis by (simp add: item quiet_refl)
  next
    case lat: (Inr lat)
    show ?thesis
    proof (cases "subscript cs ''lon''")
      case (Inl e)
      then show ?thesis by (simp add: item lat quiet_refl)
    next
      case lon: (Inr lon)
      obtain weather w1 where fw: "fetch_weather env lat lon w = (weather, w1)"
        by (cases "fetch_weather env lat lon w")
      obtain rr w2 where fr: "fetch_rain_probability env lat lon place w1 = (rr, w2)"
        by (cases "fetch_rain_probability env lat lon place w1")
      have q1: "continues_quietly w w1" using quiet_fetch_weather [of w env lat lon] fw by simp
      have q2: "continues_quietly w1 w2" using quiet_fetch_rain [of w1 env lat lon place] fr by simp
      have q: "continues_quietly w w2" by (rule quiet_trans [OF q1 q2])
      show ?thesis
      proof (cases rr)
        case (Inl e)
        then show ?thesis by (simp add: item lat lon fw fr q)
      next
        case rain: (Inr rain)
        show ?thesis
        proof (cases "location_result place weather rain")
          case (Inl e)
          then show ?thesis by (simp add: item lat lon fw fr rain q)
        next
          case (Inr result)
          then have "is_location_result result" by (rule location_result_keys)
          with Cons.prems have "list_all is_location_result (acc @ [result])" by simp
          from Cons.IH [OF this, of w2]
          have ih: "continues_quietly w2 (snd (process_locations env rest (acc @ [result]) w2))"
            "\<forall>results. fst (process_locations env rest (acc @ [result]) w2) = Inr results \<longrightarrow>
               list_all is_location_result results"
            by simp_all
          from quiet_trans [OF q ih(1)] ih(2) show ?thesis
            by (simp add: item lat lon fw fr rain Inr)
        qed
      qed
    qed
  qed
qed

lemma main_completed:
  assumes "main env w = (Completed, w')"
  shows "\<exists>es results.
           trace w' = trace w @ es @ [DatetimeNow, FileWrite WEATHER_DATA_FILE]
           \<and> list_all (\<lambda>e. \<not> snapshot_event e) es
           \<and> files w' WEATHER_DATA_FILE
               = Holds (snapshot (utc_isoformat env (length (trace w) + length es)) results)
           \<and> list_all is_location_result results"
proof -
  from assms have k: "key_set env" by (auto simp: main_def split: if_splits)
  obtain g w1 where g: "get_location_cache env w = (g, w1)"
    by (cases "get_location_cache env w")
  from assms k g obtain location_cache locations_data items weather_results w2 where
    lc: "g = Inr location_cache"
    and pl: "process_locations env items [] w1 = (Inr weather_results, w2)"
    and w': "w' = save_json WEATHER_DATA_FILE
                    (snapshot (utc_isoformat env (length (trace w2))) weather_results)
                    (emit DatetimeNow w2)"
    by (auto simp: main_def split: sum.splits if_splits prod.splits)
  have q1: "continues_quietly w w1" using quiet_get_location_cache [of w env] g by simp
  from process_locations_quiet_results [of "[]" w1 env items] pl
  have q2: "continues_quietly w1 w2" and rs: "list_all is_location_result weather_results"
    by simp_all
  from quiet_trans [OF q1 q2] obtain es where
    es: "trace w2 = trace w @ es" "list_all (\<lambda>e. \<not> snapshot_event e) es"
    unfolding continues_quietly_def by (metis append_take_drop_id)
  have "trace w' = trace w @ es @ [DatetimeNow, FileWrite WEATHER_DATA_FILE]"
    by (simp add: w' save_json_def emit_def es(1))
  moreover have "files w' WEATHER_DATA_FILE
      = Holds (snapshot (utc_isoformat env (length (trace w) + length es)) weather_results)"
    by (simp add: w' save_json_def es(1))
  ultimately show ?thesis using es(2) rs by blast
qed

lemma main_not_completed:
  assumes "main env w = (out, w')" and "out \<noteq> Completed"
  shows "continues_quietly w w'"
proof (cases "key_set env")
  case False
  with assms show ?thesis by (simp add: main_def quiet_refl)
next
  case True
  obtain g w1 where g: "get_location_cache env w = (g, w1)"
    by (cases "get_location_cache env w")
  have q1: "continues_quietly w w1" using quiet_get_location_cache [of w env] g by simp
  have q2: "continues_quietly w1 (snd (process_locations env items [] w1))" for items
    using process_locations_quiet_results [of "[]" w1 env items] by simp
  have q: "continues_quietly w (snd (process_locations env items [] w1))" for items
    by (rule quiet_trans [OF q1 q2])
  from assms True g q1 show ?thesis
    by (auto simp: main_def split: sum.splits if_splits prod.splits)
       (metis q snd_conv)
qed

text \<open>
  Claim C8, amended. A run that completes writes exactly one snapshot: its events are
  events that neither read the snapshot time nor write the snapshot file, followed by
  one reading of the clock (\<^verbatim>\<open>datetime.now\<close>, line 303) and one write of the snapshot file.
  The \<^verbatim>\<open>generated_at\<close> of the snapshot is that one reading, taken after the processing of
  all locations; it is one field beside the list of the location results, each of which
  has the nine keys of a result and no time of its own. A run that does not complete
  reads no snapshot time and writes no snapshot.
\<close>

theorem snapshot_stamped_after_processing:
  assumes "main env w = (out, w')"
  shows "(out = Completed \<longrightarrow>
            (\<exists>es results.
               trace w' = trace w @ es @ [DatetimeNow, FileWrite WEATHER_DATA_FILE]
               \<and> list_all (\<lambda>e. \<not> snapshot_event e) es
               \<and> files w' WEATHER_DATA_FILE
                   = Holds (snapshot (utc_isoformat env (length (trace w) + length es)) results)
               \<and> list_all is_location_result results))
         \<and> (out \<noteq> Completed \<longrightarrow> continues_quietly w w')"
  using assms main_completed [of env w w'] main_not_completed [of env w out w'] by blast

lemma demo_env_fields:
  "key_set demo_env"
  "LOCATIONS demo_env = [''Kano, Kano, Nigeria'']"
  "time_time demo_env k = 10000 + of_nat k"
  "utc_isoformat demo_env k = ''1970-01-01T02:46:'' @ two_digits (40 + k) @ ''+00:00''"
  "geocode demo_env k place = GeoFound 12 (17 / 2)"
  "weather_api demo_env k lat lon = HttpOk demo_weather"
  "forecast_api demo_env k lat lon = HttpOk demo_forecast"
  by (simp_all add: demo_env_def key_set_def)

lemma capitalize_clear_sky: "capitalize (JStr ''clear sky'') = Inr (JStr ''Clear sky'')"
  by code_simp

lemma demo_weather_fields:
  "weather_fields demo_weather
     = Inr (JObj [(''temp'', JNum 30), (''feels_like'', JNum 31), (''temp_min'', JNum 29),
                  (''temp_max'', JNum 32), (''humidity'', JNum 50), (''wind_speed'', JNum 0),
                  (''clouds'', JNum 0), (''description'', JStr ''Clear sky'')])"
  by (simp add: weather_fields_def demo_weather_def subscript_def index0_def
        capitalize_clear_sky dict_get_def)

lemma demo_build:
  "build_location_cache demo_env empty_disk
     = (JObj [(''version'', JStr (hash_locations [''Kano, Kano, Nigeria''])),
              (''locations'', JObj [(''Kano, Kano, Nigeria'', coords 12 (17 / 2))])],
        \<lparr>files = (\<lambda>path. Absent)
           (LOCATION_CACHE_FILE :=
              Holds (JObj [(''version'', JStr (hash_locations [''Kano, Kano, Nigeria''])),
                           (''locations'',
                            JObj [(''Kano, Kano, Nigeria'', coords 12 (17 / 2))])])),
         trace = [RebuildStarted, Geocode ''Kano, Kano, Nigeria'', Sleep,
                  FileWrite LOCATION_CACHE_FILE]\<rparr>)"
  by (simp add: build_location_cache_def demo_env_fields empty_disk_def emit_def save_json_def
        Let_def)

lemma demo_get_location_cache:
  "get_location_cache demo_env empty_disk
     = (Inr (fst (build_location_cache demo_env empty_disk)),
        snd (build_location_cache demo_env empty_disk))"
  by (simp add: get_location_cache_def load_json_def empty_disk_def version_differs_def
        split_beta)

lemma demo_fetch_weather:
  "fetch_weather demo_env lat lon w
     = (JObj [(''temp'', JNum 30), (''feels_like'', JNum 31), (''temp_min'', JNum 29),
              (''temp_max'', JNum 32), (''humidity'', JNum 50), (''wind_speed'', JNum 0),
              (''clouds'', JNum 0), (''description'', JStr ''Clear sky'')],
        emit (WeatherRequest lat lon) w)"
  by (simp add: fetch_weather_def demo_env_fields demo_weather_fields)

lemma demo_fetch_rain:
  "files w FORECAST_CACHE_FILE = Absent \<Longrightarrow>
   fetch_rain_probability demo_env lat lon ''Kano, Kano, Nigeria'' w
     = (Inr (JObj [(''max_rain_prob'', JNum 70), (''risk_level'', JStr ''HIGH'')]),
        save_json FORECAST_CACHE_FILE
          (JObj [(''Kano, Kano, Nigeria'',
                  JObj [(''timestamp'', JNum (10000 + of_nat (length (trace w)))),
                        (''data'', JObj [(''max_rain_prob'', JNum 70),
                                         (''risk_level'', JStr ''HIGH'')])])])
          (emit (ForecastRequest lat lon) (emit TimeTime w)))"
  by (simp add: fetch_rain_probability_def fetch_new_def cached_data_def demo_env_fields
        demo_forecast_summary dict_get_def setitem_def cache_entry_def load_json_def
        files_emit Let_def)

lemma demo_run:
  "main demo_env empty_disk
     = (Completed,
        \<lparr>files = (\<lambda>path. Absent)
           (LOCATION_CACHE_FILE :=
              Holds (JObj [(''version'', JStr (hash_locations [''Kano, Kano, Nigeria''])),
                           (''locations'',
                            JObj [(''Kano, Kano, Nigeria'', coords 12 (17 / 2))])]),
            FORECAST_CACHE_FILE :=
              Holds (JObj [(''Kano, Kano, Nigeria'',
                            JObj [(''timestamp'', JNum 10005),
                                  (''data'', JObj [(''max_rain_prob'', JNum 70),
                                                   (''risk_level'', JStr ''HIGH'')])])]),
            WEATHER_DATA_FILE :=
              Holds (snapshot ''1970-01-01T02:46:48+00:00'' [demo_result])),
         trace = [RebuildStarted, Geocode ''Kano, Kano, Nigeria'', Sleep,
                  FileWrite LOCATION_CACHE_FILE,
                  WeatherRequest (JNum 12) (JNum (17 / 2)), TimeTime,
                  ForecastRequest (JNum 12) (JNum (17 / 2)), FileWrite FORECAST_CACHE_FILE,
                  DatetimeNow, FileWrite WEATHER_DATA_FILE]\<rparr>)"
  by (simp add: main_def demo_env_fields demo_get_location_cache demo_build dict_get_def
        dict_items_def coords_def subscript_def demo_fetch_weather demo_fetch_rain
        location_result_def emit_def save_json_def two_digits_def demo_result_def
        fun_upd_twist)


text \<open>
  Claim C8, as stated, fails: in the example run the weather and forecast requests of
  the location happen before the time of the snapshot is read; the snapshot carries the
  time of logical time 8 (\<open>02:46:48\<close>), not the time at which the assembly started, after
  the location cache was obtained (\<open>02:46:44\<close>).
\<close>

theorem snapshot_stamped_at_start_counterexample:
  "fst (main demo_env empty_disk) = Completed
   \<and> \<not> stamped_at_start (trace (snd (main demo_env empty_disk)))
   \<and> before_stamp (trace (snd (main demo_env empty_disk)))
       = [RebuildStarted, Geocode ''Kano, Kano, Nigeria'', Sleep, FileWrite LOCATION_CACHE_FILE,
          WeatherRequest (JNum 12) (JNum (17 / 2)), TimeTime,
          ForecastRequest (JNum 12) (JNum (17 / 2)), FileWrite FORECAST_CACHE_FILE]
   \<and> files (snd (main demo_env empty_disk)) WEATHER_DATA_FILE
       = Holds (snapshot ''1970-01-01T02:46:48+00:00'' [demo_result])
   \<and> utc_isoformat demo_env (length (trace (snd (get_location_cache demo_env empty_disk))))
       = ''1970-01-01T02:46:44+00:00''"
  by (simp add: demo_run stamped_at_start_def before_stamp_def demo_get_location_cache
        demo_build demo_env_fields two_digits_def)

theorem snapshot_stamped_after_processing_witness:
  "fst (main demo_env empty_disk) = Completed
   \<and> (\<exists>es results.
         trace (snd (main demo_env empty_disk))
           = trace empty_disk @ es @ [DatetimeNow, FileWrite WEATHER_DATA_FILE]
         \<and> list_all (\<lambda>e. \<not> snapshot_event e) es
         \<and> files (snd (main demo_env empty_disk)) WEATHER_DATA_FILE
             = Holds (snapshot (utc_isoformat demo_env (length (trace empty_disk) + length es))
                        results)
         \<and> list_all is_location_result results)"
proof -
  have c: "fst (main demo_env empty_disk) = Completed" by (simp add: demo_run)
  then have "main demo_env empty_disk = (Completed, snd (main demo_env empty_disk))"
    by (metis prod.collapse)
  from snapshot_stamped_after_processing [OF this] c show ?thesis by blast
qed

end
